theory Spec2Isabelle
  imports Main "HOL-Library.Word"
begin

section \<open>Needs Pyramid Tracker: the component of needsPyramidTracker.tsx\<close>

text \<open>
  The component keeps five pieces of React state and mirrors three of them in
  \<open>localStorage\<close>. The model follows the source function by function:
  the event handlers (\<open>handleSliderChange\<close>, \<open>saveSnapshot\<close>, \<open>resetData\<close>),
  the three \<open>useEffect\<close> bodies, and React's rule that an effect runs again
  after a render in which one of its dependencies changed (compared with
  \<open>Object.is\<close>: by reference for arrays, by value for strings).

  Arrays of numbers live in an explicit store and the state holds references to
  them, so that the copies made by \<open>[...prev]\<close> and \<open>[...levelValues]\<close>, the
  in-place write \<open>newValues[index] = value[0]\<close>, and the reference comparison
  of the dependency array are all visible in the model.
\<close>

subsection \<open>Values\<close>

text \<open>
  A JavaScript string is a sequence of 16-bit code units.
\<close>

type_synonym jsstring = "16 word list"

text \<open>
  An entry of a \<open>number[]\<close> as it can occur at run time.
  \<open>Num n\<close> is the number \<open>n\<close>, an integer between \<open>-(2^53 - 1)\<close> and
  \<open>2^53 - 1\<close>: these are doubles, \<open>JSON.stringify\<close> prints them in plain
  decimal digits and \<open>JSON.parse\<close> reads the digits back exactly. The sliders
  deliver such numbers only. \<open>Null\<close> is \<open>null\<close>, which \<open>JSON.parse\<close> can deliver;
  \<open>Undefined\<close> is a hole, or \<open>value[0]\<close> of an empty array. \<open>Other c\<close> is any
  other value \<open>JSON.parse\<close> can deliver as an entry (a fraction, a larger
  number, a string, a boolean, an array, an object); the component only copies
  and prints such an entry, and \<open>c\<close> is the text \<open>JSON.stringify\<close> prints for it.
\<close>

datatype elem = Num int | Null | Undefined | Other jsstring

type_synonym ref = nat

type_synonym store = "elem list list"

text \<open>
  \<open>interface Snapshot { date: string; values: number[]; userName: string }\<close>;
  \<open>values\<close> is a reference into the store.
\<close>

record snapshot =
  date :: jsstring
  values_ref :: ref
  userName :: jsstring

text \<open>
  The React state of \<open>NeedsPyramidTracker\<close> together with the store of arrays
  and the browser's \<open>localStorage\<close>.
\<close>

record tracker =
  arrays :: store
  levelValues :: ref
  selectedLevel :: "nat option"
  history :: "snapshot list"
  showHistory :: bool
  userName :: jsstring
  localStorage :: "string \<rightharpoonup> jsstring"

definition LEVELS :: "string list" where
  "LEVELS = [''Survival'', ''Security'', ''Happiness'', ''Achievement'',
             ''Experience'', ''Self Actualization'']"

text \<open>\<open>LEVELS.map(() => 50)\<close>\<close>

definition defaultValues :: "elem list" where
  "defaultValues = map (\<lambda>_. Num 50) LEVELS"

text \<open>The array that \<open>levelValues\<close> refers to.\<close>

definition ratings :: "tracker \<Rightarrow> elem list" where
  "ratings s = arrays s ! levelValues s"

text \<open>
  Every reference held by the state points into the store. The store only
  grows, and a new array is placed at the first free address.
\<close>

definition refsValid :: "tracker \<Rightarrow> bool" where
  "refsValid s \<longleftrightarrow> levelValues s < length (arrays s) \<and>
          list_all (\<lambda>sn. values_ref sn < length (arrays s)) (history s)"

subsection \<open>JSON text of a number array\<close>

text \<open>
  \<open>JSON.stringify\<close> and \<open>JSON.parse\<close> are built-ins of the host.
  \<open>JSON.stringify\<close> is written out for the arrays the rating vector can hold.
  \<open>JSON.parse\<close> is written out for the texts of arrays of integers and
  \<open>null\<close>s; for every other text it is a parameter of the model (see
  \<open>JSON_parse\<close> below).
\<close>

definition digitChar :: "nat \<Rightarrow> 16 word" where
  "digitChar d = [0x30, 0x31, 0x32, 0x33, 0x34, 0x35, 0x36, 0x37, 0x38, 0x39] ! d"

definition isDigit :: "16 word \<Rightarrow> bool" where
  "isDigit c \<longleftrightarrow> 0x30 \<le> unat c \<and> unat c \<le> 0x39"

definition digitVal :: "16 word \<Rightarrow> nat" where
  "digitVal c = unat c - 0x30"

fun digits :: "nat \<Rightarrow> jsstring" where
  "digits n = (if n < 10 then [digitChar n]
               else digits (n div 10) @ [digitChar (n mod 10)])"

declare digits.simps [simp del]

text \<open>\<open>Number.prototype.toString\<close> on an integer: a minus sign and the decimal digits.\<close>

definition numberToString :: "int \<Rightarrow> jsstring" where
  "numberToString n = (if n < 0 then 0x2D # digits (nat (- n)) else digits (nat n))"

definition nullText :: jsstring where
  "nullText = [0x6E, 0x75, 0x6C, 0x6C]"

text \<open>Inside an array \<open>JSON.stringify\<close> writes \<open>null\<close> for \<open>undefined\<close> and for a hole.\<close>

fun stringifyElem :: "elem \<Rightarrow> jsstring" where
  "stringifyElem (Num n) = numberToString n"
| "stringifyElem Null = nullText"
| "stringifyElem Undefined = nullText"
| "stringifyElem (Other c) = c"

fun joinComma :: "jsstring list \<Rightarrow> jsstring" where
  "joinComma [] = []"
| "joinComma [p] = p"
| "joinComma (p # q # ps) = p @ 0x2C # joinComma (q # ps)"

definition JSON_stringify :: "elem list \<Rightarrow> jsstring" where
  "JSON_stringify xs = 0x5B # joinComma (map stringifyElem xs) @ [0x5D]"

text \<open>JSON white space: space, tab, line feed, carriage return.\<close>

definition isJsonWs :: "16 word \<Rightarrow> bool" where
  "isJsonWs c \<longleftrightarrow> c = 0x20 \<or> c = 0x09 \<or> c = 0x0A \<or> c = 0x0D"

definition strip :: "('a \<Rightarrow> bool) \<Rightarrow> 'a list \<Rightarrow> 'a list" where
  "strip p s = rev (dropWhile p (rev (dropWhile p s)))"

fun splitOn :: "'a \<Rightarrow> 'a list \<Rightarrow> 'a list list" where
  "splitOn c [] = [[]]"
| "splitOn c (x # xs) =
     (if x = c then [] # splitOn c xs
      else (case splitOn c xs of [] \<Rightarrow> [[x]] | p # ps \<Rightarrow> (x # p) # ps))"

text \<open>\<open>Number.MAX_SAFE_INTEGER\<close>, that is \<open>2^53 - 1\<close>.\<close>

definition MAX_SAFE_INTEGER :: nat where
  "MAX_SAFE_INTEGER = 9007199254740991"


text \<open>
  A JSON integer literal without sign and without fraction or exponent: one or
  more digits, no leading zero unless the literal is \<open>0\<close> itself, with a value
  up to \<open>2^53 - 1\<close>.
\<close>

definition parseNat :: "jsstring \<Rightarrow> nat option" where
  "parseNat s =
     (if s \<noteq> [] \<and> list_all isDigit s \<and> (length s = 1 \<or> hd s \<noteq> 0x30) \<and>
         foldl (\<lambda>a c. 10 * a + digitVal c) 0 s \<le> MAX_SAFE_INTEGER
      then Some (foldl (\<lambda>a c. 10 * a + digitVal c) 0 s) else None)"

text \<open>
  An entry: \<open>null\<close>, or an integer literal with an optional minus sign. The
  literal \<open>-0\<close> (negative zero) is not among them.
\<close>

definition parseElem :: "jsstring \<Rightarrow> elem option" where
  "parseElem s =
     (if s = nullText then Some Null
      else case s of
             [] \<Rightarrow> None
           | c # r \<Rightarrow>
               if c = 0x2D then
                 (case parseNat r of
                    None \<Rightarrow> None
                  | Some n \<Rightarrow> if n = 0 then None else Some (Num (- int n)))
               else map_option (\<lambda>n. Num (int n)) (parseNat s))"

text \<open>
  The texts read here: white space, \<open>[\<close>, entries as above separated by commas
  and white space, \<open>]\<close>, white space. On such a text \<open>JSON.parse\<close> returns the
  array of these entries. \<open>None\<close>: the text is not of this form.
\<close>

definition parseIntegerArray :: "jsstring \<Rightarrow> elem list option" where
  "parseIntegerArray text =
     (case strip isJsonWs text of
        [] \<Rightarrow> None
      | c # r \<Rightarrow>
          if c = 0x5B \<and> r \<noteq> [] \<and> last r = 0x5D then
            (let body = butlast r in
             if list_all isJsonWs body then Some []
             else (let ps = map (\<lambda>p. parseElem (strip isJsonWs p)) (splitOn 0x2C body) in
                   if list_all (\<lambda>p. p \<noteq> None) ps then Some (map the ps)
                   else None))
          else None)"

text \<open>
  What a call of \<open>JSON.parse\<close> does, seen from the type the component expects:
  it throws \<open>SyntaxError\<close>, it returns a value of that type, or it returns
  some other value.
\<close>

datatype 'a parsed = Throws | Returns 'a | ReturnsOther

text \<open>
  The parts of \<open>JSON\<close> that are parameters of the model.
  \<open>parseOtherText\<close> is \<open>JSON.parse\<close>, seen as delivering a \<open>number[]\<close>, on the
  texts that \<open>parseIntegerArray\<close> does not read: it throws, returns an array
  (whose entries may be of any kind), or returns a value that is not an array.
  The JSON text of the history is not fixed by any property below, so
  \<open>JSON.stringify\<close> and \<open>JSON.parse\<close> on a \<open>Snapshot[]\<close> are parameters as well;
  a snapshot is handed to them by value, as date, values and user name, and
  \<open>parseSnapshots\<close> returns \<open>ReturnsOther\<close> for a value that is not an array of
  objects with exactly the properties \<open>date\<close> (a string), \<open>values\<close> (an array)
  and \<open>userName\<close> (a string).
\<close>

type_synonym jsnapshot = "jsstring \<times> elem list \<times> jsstring"

record json_host =
  parseOtherText :: "jsstring \<Rightarrow> elem list parsed"
  stringifySnapshots :: "jsnapshot list \<Rightarrow> jsstring"
  parseSnapshots :: "jsstring \<Rightarrow> jsnapshot list parsed"

text \<open>\<open>JSON.parse\<close> on the text stored under the rating key.\<close>

definition JSON_parse :: "json_host \<Rightarrow> jsstring \<Rightarrow> elem list parsed" where
  "JSON_parse J text =
     (case parseIntegerArray text of
        Some xs \<Rightarrow> Returns xs
      | None \<Rightarrow> parseOtherText J text)"

definition snapshotValue :: "store \<Rightarrow> snapshot \<Rightarrow> jsnapshot" where
  "snapshotValue h sn = (date sn, h ! values_ref sn, snapshot.userName sn)"

text \<open>The objects \<open>JSON.parse\<close> creates: each \<open>values\<close> array is new in the store.\<close>

fun allocSnapshots :: "store \<Rightarrow> jsnapshot list \<Rightarrow> store \<times> snapshot list" where
  "allocSnapshots h [] = (h, [])"
| "allocSnapshots h ((d, vs, u) # js) =
     (case allocSnapshots (h @ [vs]) js of
        (h', rest) \<Rightarrow> (h', \<lparr>date = d, values_ref = length h, userName = u\<rparr> # rest))"

subsection \<open>String.prototype.trim\<close>

text \<open>
  ECMAScript WhiteSpace and LineTerminator code points; all of them are single
  code units.
\<close>

definition isWhiteSpace :: "16 word \<Rightarrow> bool" where
  "isWhiteSpace c \<longleftrightarrow>
     c \<in> {0x0009, 0x000A, 0x000B, 0x000C, 0x000D, 0x0020, 0x00A0, 0x1680,
          0x2000, 0x2001, 0x2002, 0x2003, 0x2004, 0x2005, 0x2006, 0x2007,
          0x2008, 0x2009, 0x200A, 0x2028, 0x2029, 0x202F, 0x205F, 0x3000, 0xFEFF}"

definition trim :: "jsstring \<Rightarrow> jsstring" where
  "trim s = strip isWhiteSpace s"

subsection \<open>Effects\<close>

text \<open>
  \<open>useEffect(() => { localStorage.setItem('needsPyramidValues',
  JSON.stringify(levelValues)); }, [levelValues])\<close>
\<close>

definition persistLevelValues :: "tracker \<Rightarrow> tracker" where
  "persistLevelValues s =
     s\<lparr>localStorage := (localStorage s)(''needsPyramidValues'' \<mapsto> JSON_stringify (ratings s))\<rparr>"

text \<open>
  \<open>useEffect(() => { localStorage.setItem('needsPyramidUserName', userName); },
  [userName])\<close>
\<close>

definition persistUserName :: "tracker \<Rightarrow> tracker" where
  "persistUserName s =
     s\<lparr>localStorage := (localStorage s)(''needsPyramidUserName'' \<mapsto> userName s)\<rparr>"

text \<open>
  After a render React runs, in the order of their declaration, the effects
  whose dependency differs from the one of the previous render \<open>prev\<close>:
  \<open>levelValues\<close> is compared as a reference, \<open>userName\<close> as a string. The
  loading effect has no dependency and runs at mount only.
\<close>

definition rerender :: "tracker \<Rightarrow> tracker \<Rightarrow> tracker" where
  "rerender prev s =
     (let s1 = (if levelValues s \<noteq> levelValues prev then persistLevelValues s else s)
      in if userName s1 \<noteq> userName prev then persistUserName s1 else s1)"

subsection \<open>Event handlers\<close>

text \<open>\<open>value[0]\<close>\<close>

definition firstOf :: "elem list \<Rightarrow> elem" where
  "firstOf value = (case value of [] \<Rightarrow> Undefined | v # _ \<Rightarrow> v)"

text \<open>
  \<open>arr[index] = v\<close> for an array index: inside the array the entry is replaced,
  beyond its end the array grows and the gap reads as \<open>undefined\<close>.
\<close>

definition assignIndex :: "elem list \<Rightarrow> nat \<Rightarrow> elem \<Rightarrow> elem list" where
  "assignIndex xs i v =
     (if i < length xs then xs[i := v]
      else xs @ replicate (i - length xs) Undefined @ [v])"

text \<open>
  \<open>setLevelValues(prev => { const newValues = [...prev]; newValues[index] =
  value[0]; return newValues; })\<close>: the copy is a new array in the store, the
  assignment writes into that array, and the state refers to it afterwards.
\<close>

definition handleSliderChange :: "nat \<Rightarrow> elem list \<Rightarrow> tracker \<Rightarrow> tracker" where
  "handleSliderChange index value s =
     (let prev = levelValues s;
          newValues = length (arrays s);
          h = arrays s @ [arrays s ! prev];
          h' = h[newValues := assignIndex (h ! newValues) index (firstOf value)]
      in s\<lparr>arrays := h', levelValues := newValues\<rparr>)"

text \<open>
  \<open>saveSnapshot\<close>; \<open>now\<close> is \<open>new Date().toISOString()\<close>. The function has no
  check of the name.
\<close>

definition saveSnapshot :: "json_host \<Rightarrow> jsstring \<Rightarrow> tracker \<Rightarrow> tracker" where
  "saveSnapshot J now s =
     (let h = arrays s @ [arrays s ! levelValues s];
          newSnapshot = \<lparr>date = now, values_ref = length (arrays s), userName = userName s\<rparr>;
          updatedHistory = history s @ [newSnapshot]
      in s\<lparr>arrays := h,
           history := updatedHistory,
           localStorage := (localStorage s)(''needsPyramidHistory'' \<mapsto>
              stringifySnapshots J (map (snapshotValue h) updatedHistory))\<rparr>)"

text \<open>\<open>disabled={!userName.trim()}\<close> on the Save Snapshot button.\<close>

definition saveDisabled :: "tracker \<Rightarrow> bool" where
  "saveDisabled s \<longleftrightarrow> trim (userName s) = []"

text \<open>\<open>resetData\<close>; \<open>confirmed\<close> is the answer of \<open>window.confirm\<close>.\<close>

definition resetData :: "bool \<Rightarrow> tracker \<Rightarrow> tracker" where
  "resetData confirmed s =
     (if confirmed then
        s\<lparr>arrays := arrays s @ [defaultValues],
          levelValues := length (arrays s),
          history := [],
          userName := [],
          localStorage := (localStorage s)(''needsPyramidValues'' := None,
                                           ''needsPyramidHistory'' := None,
                                           ''needsPyramidUserName'' := None)\<rparr>
      else s)"

subsection \<open>Events\<close>

text \<open>
  What the user can do: move a slider (of the list or of the dialog), type in
  the name field, click Save Snapshot, click Reset Data and answer the prompt,
  toggle the history chart, click a band of the pyramid, close the dialog.
\<close>

datatype event =
    SliderChange nat "elem list"
  | NameInput jsstring
  | SaveClick jsstring
  | ResetClick bool
  | ToggleHistory
  | SelectLevel nat
  | CloseDialog

fun handle :: "json_host \<Rightarrow> event \<Rightarrow> tracker \<Rightarrow> tracker" where
  "handle J (SliderChange index value) s = handleSliderChange index value s"
| "handle J (NameInput text) s = s\<lparr>userName := text\<rparr>"
| "handle J (SaveClick now) s = (if saveDisabled s then s else saveSnapshot J now s)"
| "handle J (ResetClick confirmed) s = resetData confirmed s"
| "handle J ToggleHistory s = s\<lparr>showHistory := \<not> showHistory s\<rparr>"
| "handle J (SelectLevel index) s = s\<lparr>selectedLevel := Some index\<rparr>"
| "handle J CloseDialog s = s\<lparr>selectedLevel := None\<rparr>"

text \<open>One event: the handler, then the render and its effects.\<close>

definition step :: "json_host \<Rightarrow> event \<Rightarrow> tracker \<Rightarrow> tracker" where
  "step J ev s = rerender s (handle J ev s)"

fun run :: "json_host \<Rightarrow> event list \<Rightarrow> tracker \<Rightarrow> tracker" where
  "run J [] s = s"
| "run J (ev # evs) s = run J evs (step J ev s)"

text \<open>
  The events the controls can deliver: a slider has \<open>max={100}\<close>, \<open>step={1}\<close> and
  the default minimum 0, and exists for the six indices of \<open>LEVELS\<close> only.
\<close>

fun fromControls :: "event \<Rightarrow> bool" where
  "fromControls (SliderChange index value) =
     (index < length LEVELS \<and>
      (case value of [Num v] \<Rightarrow> 0 \<le> v \<and> v \<le> 100 | _ \<Rightarrow> False))"
| "fromControls (SelectLevel index) = (index < length LEVELS)"
| "fromControls _ = True"

subsection \<open>Initialisation\<close>

text \<open>The state of the first render: the arguments of the \<open>useState\<close> calls.\<close>

definition initialState :: "(string \<rightharpoonup> jsstring) \<Rightarrow> tracker" where
  "initialState st =
     \<lparr>arrays = [defaultValues], levelValues = 0, selectedLevel = None, history = [],
      showHistory = False, userName = [], localStorage = st\<rparr>"

text \<open>
  What the loading effect does with a state variable that it reads through
  \<open>JSON.parse\<close>: it leaves it as it is, it sets it to a loaded value of the
  declared type, or it sets it to a loaded value that is not of the declared
  type. The display name is loaded as the stored string itself: \<open>None\<close> leaves
  it as it is.
\<close>

datatype 'a loaded = Unchanged | Loaded 'a | LoadedOther

record loads =
  loadedLevelValues :: "elem list loaded"
  loadedHistory :: "jsnapshot list loaded"
  loadedUserName :: "jsstring option"

text \<open>
  \<open>if (saved) { set(JSON.parse(saved)); }\<close>: a stored string is used when it is
  truthy, that is present and not empty. \<open>None\<close>: \<open>JSON.parse\<close> throws.
\<close>

definition loadParsed :: "jsstring option \<Rightarrow> (jsstring \<Rightarrow> 'a parsed) \<Rightarrow> 'a loaded option" where
  "loadParsed saved parse =
     (case saved of
        None \<Rightarrow> Some Unchanged
      | Some t \<Rightarrow>
          if t = [] then Some Unchanged
          else (case parse t of
                  Throws \<Rightarrow> None
                | Returns v \<Rightarrow> Some (Loaded v)
                | ReturnsOther \<Rightarrow> Some LoadedOther))"

text \<open>
  The loading effect: the three reads of the storage, then the three
  statements in their order. \<open>None\<close>: one of the two calls of \<open>JSON.parse\<close>
  throws and the effect ends there.
\<close>

definition loadEffect :: "json_host \<Rightarrow> (string \<rightharpoonup> jsstring) \<Rightarrow> loads option" where
  "loadEffect J st =
     (let savedLevelValues = st ''needsPyramidValues'';
          savedHistory = st ''needsPyramidHistory'';
          savedUserName = st ''needsPyramidUserName''
      in case loadParsed savedLevelValues (JSON_parse J) of
           None \<Rightarrow> None
         | Some lv \<Rightarrow>
             (case loadParsed savedHistory (parseSnapshots J) of
                None \<Rightarrow> None
              | Some h \<Rightarrow>
                  Some \<lparr>loadedLevelValues = lv, loadedHistory = h,
                        loadedUserName =
                          (case savedUserName of
                             None \<Rightarrow> None
                           | Some t \<Rightarrow> if t = [] then None else Some t)\<rparr>))"

text \<open>
  The state setters, applied to what was loaded. The state of the model holds
  values of the declared types only (\<open>number[]\<close>, \<open>Snapshot[]\<close>, \<open>string\<close>);
  \<open>None\<close>: the value to set is not of the declared type, and the model does
  not follow the component further. A loaded array is a new array in the store.
\<close>

definition setLevelValues :: "elem list loaded \<Rightarrow> tracker \<Rightarrow> tracker option" where
  "setLevelValues l s =
     (case l of
        Unchanged \<Rightarrow> Some s
      | Loaded xs \<Rightarrow> Some (s\<lparr>arrays := arrays s @ [xs], levelValues := length (arrays s)\<rparr>)
      | LoadedOther \<Rightarrow> None)"

definition setHistory :: "jsnapshot list loaded \<Rightarrow> tracker \<Rightarrow> tracker option" where
  "setHistory l s =
     (case l of
        Unchanged \<Rightarrow> Some s
      | Loaded js \<Rightarrow>
          (case allocSnapshots (arrays s) js of
             (h, sns) \<Rightarrow> Some (s\<lparr>arrays := h, history := sns\<rparr>))
      | LoadedOther \<Rightarrow> None)"

definition setUserName :: "jsstring option \<Rightarrow> tracker \<Rightarrow> tracker" where
  "setUserName l s =
     (case l of
        None \<Rightarrow> s
      | Some t \<Rightarrow> s\<lparr>userName := t\<rparr>)"

definition requestedState :: "loads \<Rightarrow> tracker \<Rightarrow> tracker option" where
  "requestedState l s =
     (case setLevelValues (loadedLevelValues l) s of
        None \<Rightarrow> None
      | Some s1 \<Rightarrow>
          (case setHistory (loadedHistory l) s1 of
             None \<Rightarrow> None
           | Some s2 \<Rightarrow> Some (setUserName (loadedUserName l) s2)))"

text \<open>
  How initialisation can end without a state of the model: \<open>SyntaxError\<close>,
  thrown by \<open>JSON.parse\<close> in the loading effect; \<open>OutsideTypes\<close>, when no call
  throws but the rating vector loaded is not an array or the history loaded is
  not a \<open>Snapshot[]\<close>.
\<close>

datatype load_error = SyntaxError | OutsideTypes

text \<open>
  Mounting the component on a browser whose storage is \<open>st\<close>. After the first
  render all three effects run in order, each seeing the state of that render
  (the defaults): the loading effect reads the storage and requests the new
  state, then the two persisting effects write the defaults. The requested
  state is rendered next, and the effects whose dependency changed run again.
\<close>

definition mount :: "json_host \<Rightarrow> (string \<rightharpoonup> jsstring) \<Rightarrow> load_error + tracker" where
  "mount J st =
     (let s0 = initialState st in
      case loadEffect J st of
        None \<Rightarrow> Inl SyntaxError
      | Some l \<Rightarrow>
          (case requestedState l s0 of
             None \<Rightarrow> Inl OutsideTypes
           | Some requested \<Rightarrow>
               (let written = persistUserName (persistLevelValues s0)
                in Inr (rerender s0 (requested\<lparr>localStorage := localStorage written\<rparr>)))))"

subsection \<open>The rating invariant\<close>

text \<open>An entry is a rating when it is an integer from 0 to 100.\<close>

definition ratingOk :: "elem \<Rightarrow> bool" where
  "ratingOk e =
     (case e of Num n \<Rightarrow> 0 \<le> n \<and> n \<le> 100 | Null \<Rightarrow> False | Undefined \<Rightarrow> False
      | Other c \<Rightarrow> False)"

definition vectorOk :: "elem list \<Rightarrow> bool" where
  "vectorOk xs \<longleftrightarrow> length xs = 6 \<and> list_all ratingOk xs"

text \<open>
  The stored rating vector is absent, empty, or a JSON text of six ratings.
\<close>

definition storedVectorOk :: "json_host \<Rightarrow> (string \<rightharpoonup> jsstring) \<Rightarrow> bool" where
  "storedVectorOk J st =
     (case st ''needsPyramidValues'' of
        None \<Rightarrow> True
      | Some t \<Rightarrow>
          if t = [] then True
          else (case JSON_parse J t of
                  Throws \<Rightarrow> False
                | Returns xs \<Rightarrow> vectorOk xs
                | ReturnsOther \<Rightarrow> False))"

subsection \<open>A host for closed examples\<close>

text \<open>
  In the examples below every stored rating text is read by
  \<open>parseIntegerArray\<close> and no history text is stored, so this host is never
  asked to read a text; it writes the empty text for a history.
\<close>

definition exampleHost :: json_host where
  "exampleHost =
     \<lparr>parseOtherText = (\<lambda>t. Throws), stringifySnapshots = (\<lambda>js. []),
      parseSnapshots = (\<lambda>t. Throws)\<rparr>"

subsection \<open>Examples\<close>

text \<open>
  The example of the specification: the vector 10, 20, 30, 40, 50, 60 and the
  name Alice; a timestamp; and three JSON texts of number arrays.
\<close>

definition exampleName :: jsstring where
  "exampleName = [0x41, 0x6C, 0x69, 0x63, 0x65]"

definition exampleDate :: jsstring where
  "exampleDate = [0x32, 0x30, 0x32, 0x34, 0x2D, 0x30, 0x31, 0x2D, 0x30, 0x31, 0x54, 0x30, 0x30,
                  0x3A, 0x30, 0x30, 0x3A, 0x30, 0x30, 0x2E, 0x30, 0x30, 0x30, 0x5A]"

definition exampleState :: tracker where
  "exampleState =
     \<lparr>arrays = [[Num 10, Num 20, Num 30, Num 40, Num 50, Num 60]], levelValues = 0,
      selectedLevel = None, history = [], showHistory = False, userName = exampleName,
      localStorage = Map.empty\<rparr>"

definition exampleText :: jsstring where
  "exampleText = [0x5B, 0x31, 0x30, 0x2C, 0x32, 0x30, 0x2C, 0x33, 0x30, 0x2C, 0x34, 0x30, 0x2C,
                  0x35, 0x30, 0x2C, 0x36, 0x30, 0x5D]"

definition shortText :: jsstring where
  "shortText = [0x5B, 0x31, 0x2C, 0x32, 0x2C, 0x33, 0x5D]"

definition defaultText :: jsstring where
  "defaultText = [0x5B, 0x35, 0x30, 0x2C, 0x35, 0x30, 0x2C, 0x35, 0x30, 0x2C, 0x35, 0x30, 0x2C,
                  0x35, 0x30, 0x2C, 0x35, 0x30, 0x5D]"


section \<open>Properties\<close>

subsection \<open>Decimal digits\<close>











subsection \<open>Reading back the JSON text of an integer array\<close>






lemma strip_all_dropped:
  assumes "\<forall>c\<in>set s. p c"
  shows "strip p s = []"
proof -
  from assms have d: "dropWhile p s = []" by simp
  show ?thesis unfolding strip_def d by simp
qed









subsection \<open>Evaluation of the examples\<close>

lemma defaultValues_eq: "defaultValues = [Num 50, Num 50, Num 50, Num 50, Num 50, Num 50]"
  by (simp add: defaultValues_def LEVELS_def)

lemma length_LEVELS: "length LEVELS = 6"
  by (simp add: LEVELS_def)

lemmas model_defs =
  step_def rerender_def persistLevelValues_def persistUserName_def handleSliderChange_def
  saveSnapshot_def saveDisabled_def resetData_def mount_def loadEffect_def loadParsed_def
  requestedState_def setLevelValues_def setHistory_def setUserName_def initialState_def
  ratings_def Let_def defaultValues_eq trim_def strip_def isWhiteSpace_def assignIndex_def
  firstOf_def refsValid_def vectorOk_def ratingOk_def storedVectorOk_def snapshotValue_def
  exampleHost_def exampleState_def exampleName_def exampleDate_def

lemmas json_defs =
  parseIntegerArray_def isJsonWs_def parseElem_def parseNat_def nullText_def isDigit_def
  digitVal_def MAX_SAFE_INTEGER_def

lemma JSON_parse_exampleText:
  "JSON_parse J exampleText = Returns [Num 10, Num 20, Num 30, Num 40, Num 50, Num 60]"
  by (simp add: JSON_parse_def exampleText_def json_defs strip_def)

lemma JSON_parse_shortText: "JSON_parse J shortText = Returns [Num 1, Num 2, Num 3]"
  by (simp add: JSON_parse_def shortText_def json_defs strip_def)

lemma JSON_stringify_fifties:
  "JSON_stringify [Num 50, Num 50, Num 50, Num 50, Num 50, Num 50] = defaultText"
  by code_simp


lemma exampleText_nonempty: "exampleText \<noteq> []" "shortText \<noteq> []"
  by (simp_all add: exampleText_def shortText_def)

subsection \<open>Renders and handlers\<close>

lemma rerender_state [simp]:
  "arrays (rerender p s) = arrays s"
  "levelValues (rerender p s) = levelValues s"
  "selectedLevel (rerender p s) = selectedLevel s"
  "history (rerender p s) = history s"
  "showHistory (rerender p s) = showHistory s"
  "userName (rerender p s) = userName s"
  by (simp_all add: rerender_def persistLevelValues_def persistUserName_def Let_def)

lemma ratings_rerender [simp]: "ratings (rerender p s) = ratings s"
  by (simp add: ratings_def)

lemma rerender_same [simp]: "rerender s s = s"
  by (simp add: rerender_def)

lemma ratings_handleSliderChange:
  "ratings (handleSliderChange index value s) = assignIndex (ratings s) index (firstOf value)"
  by (simp add: handleSliderChange_def ratings_def Let_def)

lemma history_handleSliderChange [simp]:
  "history (handleSliderChange index value s) = history s"
  by (simp add: handleSliderChange_def Let_def)

lemma store_stable_step:
  "r < length (arrays s) \<Longrightarrow>
   arrays (step J ev s) ! r = arrays s ! r \<and> length (arrays s) \<le> length (arrays (step J ev s))"
  by (cases ev)
     (simp_all add: step_def handleSliderChange_def saveSnapshot_def resetData_def Let_def nth_append)

lemma slider_moves_keep:
  "r < length (arrays s) \<Longrightarrow>
   history (run J (map (\<lambda>(i, v). SliderChange i v) moves) s) = history s \<and>
   arrays (run J (map (\<lambda>(i, v). SliderChange i v) moves) s) ! r = arrays s ! r"
proof (induction moves arbitrary: s)
  case Nil
  then show ?case by simp
next
  case (Cons m moves)
  obtain i v where m: "m = (i, v)" by (cases m)
  let ?s = "step J (SliderChange i v) s"
  from Cons.prems have st: "arrays ?s ! r = arrays s ! r" and len: "r < length (arrays ?s)"
    using store_stable_step [of r s J "SliderChange i v"] by auto
  have h: "history ?s = history s" by (simp add: step_def)
  from Cons.IH [OF len] st h m show ?case by simp
qed

lemma initialState_fields [simp]:
  "arrays (initialState st) = [defaultValues]"
  "levelValues (initialState st) = 0"
  "history (initialState st) = []"
  "userName (initialState st) = []"
  "localStorage (initialState st) = st"
  by (simp_all add: initialState_def)


subsection \<open>Loading\<close>

lemma allocSnapshots_store:
  "fst (allocSnapshots h js) = h @ map (\<lambda>j. fst (snd j)) js"
  by (induction h js rule: allocSnapshots.induct) (auto split: prod.splits)

lemma allocSnapshots_refs:
  "list_all (\<lambda>sn. length h \<le> values_ref sn \<and> values_ref sn < length h + length js)
     (snd (allocSnapshots h js))"
proof (induction h js rule: allocSnapshots.induct)
  case (1 h)
  then show ?case by simp
next
  case (2 h d vs u js)
  have "list_all (\<lambda>sn. length (h @ [vs]) \<le> values_ref sn \<and>
                        values_ref sn < length (h @ [vs]) + length js)
          (snd (allocSnapshots (h @ [vs]) js))"
    using 2 by simp
  then have "list_all (\<lambda>sn. length h \<le> values_ref sn \<and> values_ref sn < length h + Suc (length js))
          (snd (allocSnapshots (h @ [vs]) js))"
    by (rule list.pred_mono_strong) simp
  then show ?case by (auto split: prod.splits)
qed

lemma allocSnapshots_values:
  "map (snapshotValue (fst (allocSnapshots h js) @ ext)) (snd (allocSnapshots h js)) = js"
proof (induction h js arbitrary: ext rule: allocSnapshots.induct)
  case (1 h)
  then show ?case by simp
next
  case (2 h d vs u js)
  have st: "fst (allocSnapshots (h @ [vs]) js) = h @ [vs] @ map (\<lambda>j. fst (snd j)) js"
    by (simp add: allocSnapshots_store)
  have hd: "snapshotValue (fst (allocSnapshots (h @ [vs]) js) @ ext)
              \<lparr>date = d, values_ref = length h, userName = u\<rparr> = (d, vs, u)"
    unfolding st by (simp add: snapshotValue_def nth_append)
  from 2 [of ext] hd show ?case by (auto split: prod.splits)
qed

lemma setLevelValues_result:
  assumes "setLevelValues l s = Some s1"
  shows "history s1 = history s \<and> userName s1 = userName s \<and> localStorage s1 = localStorage s \<and>
         (case l of
            Unchanged \<Rightarrow> s1 = s
          | Loaded xs \<Rightarrow> ratings s1 = xs \<and> levelValues s1 = length (arrays s) \<and>
                         arrays s1 = arrays s @ [xs]
          | LoadedOther \<Rightarrow> False)"
  using assms by (cases l) (auto simp: setLevelValues_def ratings_def)

lemma setHistory_result:
  assumes "setHistory l s1 = Some s2"
  shows "levelValues s2 = levelValues s1 \<and> userName s2 = userName s1 \<and>
         localStorage s2 = localStorage s1 \<and>
         (\<exists>ext. arrays s2 = arrays s1 @ ext) \<and>
         (case l of
            Unchanged \<Rightarrow> history s2 = history s1
          | Loaded js \<Rightarrow> map (snapshotValue (arrays s2)) (history s2) = js \<and>
                         list_all (\<lambda>sn. values_ref sn < length (arrays s2)) (history s2)
          | LoadedOther \<Rightarrow> False)"
proof (cases l)
  case Unchanged
  with assms show ?thesis by (simp add: setHistory_def)
next
  case (Loaded js)
  with assms have s2: "s2 = s1\<lparr>arrays := fst (allocSnapshots (arrays s1) js),
                                history := snd (allocSnapshots (arrays s1) js)\<rparr>"
    by (auto simp: setHistory_def split: prod.splits)
  have v: "map (snapshotValue (arrays s2)) (history s2) = js"
    using allocSnapshots_values [of "arrays s1" js "[]"] s2 by simp
  have "list_all (\<lambda>sn. length (arrays s1) \<le> values_ref sn \<and>
                        values_ref sn < length (arrays s1) + length js) (history s2)"
    using allocSnapshots_refs [of "arrays s1" js] s2 by simp
  then have r: "list_all (\<lambda>sn. values_ref sn < length (arrays s2)) (history s2)"
    by (rule list.pred_mono_strong) (simp add: s2 allocSnapshots_store)
  from Loaded v r s2 show ?thesis by (simp add: allocSnapshots_store)
next
  case LoadedOther
  with assms show ?thesis by (simp add: setHistory_def)
qed

lemma setUserName_state [simp]:
  "arrays (setUserName l s) = arrays s"
  "levelValues (setUserName l s) = levelValues s"
  "history (setUserName l s) = history s"
  "localStorage (setUserName l s) = localStorage s"
  by (simp_all add: setUserName_def split: option.splits)

lemma userName_setUserName:
  "userName (setUserName l s) = (case l of None \<Rightarrow> userName s | Some t \<Rightarrow> t)"
  by (simp add: setUserName_def split: option.splits)

lemma loadEffect_result:
  assumes "loadEffect J st = Some l"
  shows "loadParsed (st ''needsPyramidValues'') (JSON_parse J) = Some (loadedLevelValues l)"
    and "loadParsed (st ''needsPyramidHistory'') (parseSnapshots J) = Some (loadedHistory l)"
    and "loadedUserName l =
           (case st ''needsPyramidUserName'' of
              None \<Rightarrow> None | Some t \<Rightarrow> if t = [] then None else Some t)"
  using assms by (auto simp: loadEffect_def Let_def split: option.splits)

lemma loadParsed_result:
  assumes "loadParsed saved parse = Some l"
  shows "case saved of
           None \<Rightarrow> l = Unchanged
         | Some t \<Rightarrow>
             if t = [] then l = Unchanged
             else (case l of
                     Unchanged \<Rightarrow> False
                   | Loaded v \<Rightarrow> parse t = Returns v
                   | LoadedOther \<Rightarrow> parse t = ReturnsOther)"
  using assms by (auto simp: loadParsed_def split: option.splits if_splits parsed.splits)

lemma mount_result:
  assumes "mount J st = Inr s"
  obtains l s1 s2 where
    "loadEffect J st = Some l"
    "setLevelValues (loadedLevelValues l) (initialState st) = Some s1"
    "setHistory (loadedHistory l) s1 = Some s2"
    "s = rerender (initialState st)
           ((setUserName (loadedUserName l) s2)\<lparr>localStorage :=
              localStorage (persistUserName (persistLevelValues (initialState st)))\<rparr>)"
  using assms
  by (auto simp: mount_def requestedState_def Let_def split: option.splits)

lemma mount_state:
  assumes "mount J st = Inr s" and "loadEffect J st = Some l"
  shows "ratings s = (case loadedLevelValues l of Loaded xs \<Rightarrow> xs | _ \<Rightarrow> replicate 6 (Num 50))"
    and "case loadedHistory l of
           Loaded js \<Rightarrow> map (snapshotValue (arrays s)) (history s) = js
         | _ \<Rightarrow> history s = []"
    and "userName s = (case loadedUserName l of None \<Rightarrow> [] | Some t \<Rightarrow> t)"
    and "levelValues s < length (arrays s)"
    and "list_all (\<lambda>sn. values_ref sn < length (arrays s)) (history s)"
proof -
  from assms(1) obtain l' s1 s2 where
    le: "loadEffect J st = Some l'" and
    l1: "setLevelValues (loadedLevelValues l') (initialState st) = Some s1" and
    l2: "setHistory (loadedHistory l') s1 = Some s2" and
    s: "s = rerender (initialState st)
              ((setUserName (loadedUserName l') s2)\<lparr>localStorage :=
                 localStorage (persistUserName (persistLevelValues (initialState st)))\<rparr>)"
    by (rule mount_result)
  from le assms(2) have ll: "l' = l" by simp
  note r1 = setLevelValues_result [OF l1, unfolded ll]
  note r2 = setHistory_result [OF l2, unfolded ll]
  from r2 obtain ext where ext: "arrays s2 = arrays s1 @ ext" by blast
  have a: "arrays s = arrays s2" and lv: "levelValues s = levelValues s1"
    and h: "history s = history s2"
    using s r2 by simp_all
  have d: "replicate 6 (Num 50) = defaultValues"
    by (simp add: defaultValues_eq numeral_eq_Suc)
  have rs: "ratings s = (arrays s1 @ ext) ! levelValues s1"
    unfolding ratings_def a lv ext ..
  show "ratings s = (case loadedLevelValues l of Loaded xs \<Rightarrow> xs | _ \<Rightarrow> replicate 6 (Num 50))"
  proof (cases "loadedLevelValues l")
    case Unchanged
    with r1 have "s1 = initialState st" by simp
    then show ?thesis unfolding rs d Unchanged by simp
  next
    case (Loaded xs)
    with r1 have "levelValues s1 = Suc 0" and "arrays s1 = [defaultValues, xs]" by simp_all
    then show ?thesis unfolding rs Loaded by simp
  next
    case LoadedOther
    with r1 show ?thesis by simp
  qed
  show "case loadedHistory l of
          Loaded js \<Rightarrow> map (snapshotValue (arrays s)) (history s) = js
        | _ \<Rightarrow> history s = []"
    using r1 r2 a h by (cases "loadedHistory l") simp_all
  show "userName s = (case loadedUserName l of None \<Rightarrow> [] | Some t \<Rightarrow> t)"
    using r1 r2 s ll by (simp add: userName_setUserName split: option.splits)
  have "levelValues s1 < length (arrays s1)"
    using r1 by (cases "loadedLevelValues l") auto
  then show "levelValues s < length (arrays s)" using lv a ext by simp
  show "list_all (\<lambda>sn. values_ref sn < length (arrays s)) (history s)"
    using r1 r2 a h by (cases "loadedHistory l") simp_all
qed

lemma mount_loaded:
  assumes "mount J st = Inr s"
  shows "(case st ''needsPyramidValues'' of
            None \<Rightarrow> ratings s = replicate 6 (Num 50)
          | Some t \<Rightarrow> if t = [] then ratings s = replicate 6 (Num 50)
                      else JSON_parse J t = Returns (ratings s)) \<and>
         (case st ''needsPyramidHistory'' of
            None \<Rightarrow> history s = []
          | Some t \<Rightarrow> if t = [] then history s = []
                      else parseSnapshots J t
                             = Returns (map (snapshotValue (arrays s)) (history s))) \<and>
         (case st ''needsPyramidUserName'' of
            None \<Rightarrow> userName s = []
          | Some t \<Rightarrow> userName s = t)"
proof -
  from assms obtain l where le: "loadEffect J st = Some l"
    by (rule mount_result)
  note ms = mount_state [OF assms le]
  note lp1 = loadParsed_result [OF loadEffect_result(1) [OF le]]
  note lp2 = loadParsed_result [OF loadEffect_result(2) [OF le]]
  note lu = loadEffect_result(3) [OF le]
  have v: "case st ''needsPyramidValues'' of
             None \<Rightarrow> ratings s = replicate 6 (Num 50)
           | Some t \<Rightarrow> if t = [] then ratings s = replicate 6 (Num 50)
                       else JSON_parse J t = Returns (ratings s)"
    using lp1 ms(1) assms le
    by (cases "loadedLevelValues l")
       (auto simp: mount_def requestedState_def setLevelValues_def Let_def
             split: option.splits if_splits)
  have h: "case st ''needsPyramidHistory'' of
             None \<Rightarrow> history s = []
           | Some t \<Rightarrow> if t = [] then history s = []
                       else parseSnapshots J t
                              = Returns (map (snapshotValue (arrays s)) (history s))"
    using lp2 ms(2) assms le
    by (cases "loadedHistory l")
       (auto simp: mount_def requestedState_def setHistory_def Let_def
             split: option.splits if_splits)
  have u: "case st ''needsPyramidUserName'' of None \<Rightarrow> userName s = [] | Some t \<Rightarrow> userName s = t"
    using lu ms(3) by (auto split: option.splits)
  from v h u show ?thesis by blast
qed

lemma mount_levelValues_valid:
  assumes "mount J st = Inr s"
  shows "levelValues s < length (arrays s)"
proof -
  from assms obtain l where "loadEffect J st = Some l" by (rule mount_result)
  then show ?thesis using mount_state(4) [OF assms] by blast
qed

subsection \<open>References stay valid\<close>

lemma mount_refsValid:
  assumes "mount J st = Inr s"
  shows "refsValid s"
proof -
  from assms obtain l where le: "loadEffect J st = Some l" by (rule mount_result)
  from mount_state(4,5) [OF assms le] show ?thesis by (simp add: refsValid_def)
qed

lemma step_refsValid:
  assumes "refsValid s"
  shows "refsValid (step J ev s)"
proof -
  have grow: "list_all (\<lambda>sn. values_ref sn < Suc (length (arrays s))) (history s)"
    using assms by (auto simp: refsValid_def list_all_iff)
  show ?thesis
    using assms grow
    by (cases ev)
       (simp_all add: refsValid_def step_def handleSliderChange_def saveSnapshot_def resetData_def Let_def)
qed

lemma run_refsValid: "refsValid s \<Longrightarrow> refsValid (run J evs s)"
  by (induction evs arbitrary: s) (simp_all add: step_refsValid)


subsection \<open>Moving a slider\<close>

text \<open>
  C1: for an index from 0 to 5 and a rating vector of length 6, after the slider
  event that delivers the value \<open>v\<close> for that index the vector holds \<open>v\<close> at this
  index, holds what it held at every other index, and still has length 6. This
  is so for every integer \<open>v\<close>, in particular for those from 0 to 100.
\<close>

theorem slider_change_sets_entry:
  assumes "length (ratings s) = 6" and "i \<le> 5"
  shows "ratings (step J (SliderChange i [Num v]) s) ! i = Num v \<and>
         (\<forall>j<6. j \<noteq> i \<longrightarrow> ratings (step J (SliderChange i [Num v]) s) ! j = ratings s ! j) \<and>
         length (ratings (step J (SliderChange i [Num v]) s)) = 6"
  using assms
  by (simp add: step_def ratings_handleSliderChange assignIndex_def firstOf_def)

theorem slider_change_sets_entry_witness:
  "length (ratings exampleState) = 6 \<and> (2::nat) \<le> 5 \<and>
   ratings (step exampleHost (SliderChange 2 [Num 75]) exampleState)
     = [Num 10, Num 20, Num 75, Num 40, Num 50, Num 60]"
  using slider_change_sets_entry [of exampleState 2 exampleHost 75]
  by (simp add: model_defs)

subsection \<open>Saving a snapshot\<close>

text \<open>
  C2: when the name is not blank, a click on Save Snapshot appends exactly one
  entry to the history. Its \<open>values\<close> array holds what the rating vector holds
  at that moment, its \<open>userName\<close> is the display name and its \<open>date\<close> the time
  of the click. Whatever slider events follow, the history is the same and the
  array of that snapshot holds the same entries: the snapshot has its own copy.
\<close>

theorem snapshot_is_copy_and_kept:
  assumes "\<not> saveDisabled s"
  shows "history (step J (SaveClick now) s) = history s @ [last (history (step J (SaveClick now) s))] \<and>
         arrays (step J (SaveClick now) s) ! values_ref (last (history (step J (SaveClick now) s))) = ratings s \<and>
         snapshot.userName (last (history (step J (SaveClick now) s))) = userName s \<and>
         date (last (history (step J (SaveClick now) s))) = now \<and>
         history (run J (map (\<lambda>(i, v). SliderChange i v) moves) (step J (SaveClick now) s))
           = history (step J (SaveClick now) s) \<and>
         arrays (run J (map (\<lambda>(i, v). SliderChange i v) moves) (step J (SaveClick now) s))
           ! values_ref (last (history (step J (SaveClick now) s))) = ratings s"
proof -
  let ?s1 = "step J (SaveClick now) s"
  let ?sn = "\<lparr>date = now, values_ref = length (arrays s), userName = userName s\<rparr>"
  have h: "history ?s1 = history s @ [?sn]"
    using assms by (simp add: step_def saveSnapshot_def Let_def)
  then have l: "last (history ?s1) = ?sn" by simp
  have a: "arrays ?s1 = arrays s @ [ratings s]"
    using assms by (simp add: step_def saveSnapshot_def Let_def ratings_def)
  have r: "values_ref ?sn < length (arrays ?s1)" using a by simp
  have v: "arrays ?s1 ! values_ref ?sn = ratings s" using a by simp
  from slider_moves_keep [OF r, of J moves] h l v show ?thesis by simp
qed

theorem snapshot_is_copy_and_kept_witness:
  "\<not> saveDisabled exampleState \<and>
   length (history (step exampleHost (SaveClick exampleDate) exampleState)) = 1 \<and>
   snapshot.userName (last (history (step exampleHost (SaveClick exampleDate) exampleState)))
     = exampleName \<and>
   ratings (run exampleHost [SliderChange 0 [Num 99]]
              (step exampleHost (SaveClick exampleDate) exampleState))
     = [Num 99, Num 20, Num 30, Num 40, Num 50, Num 60] \<and>
   arrays (run exampleHost [SliderChange 0 [Num 99]]
             (step exampleHost (SaveClick exampleDate) exampleState))
     ! values_ref (last (history (step exampleHost (SaveClick exampleDate) exampleState)))
     = [Num 10, Num 20, Num 30, Num 40, Num 50, Num 60]"
  using snapshot_is_copy_and_kept [of exampleState exampleHost exampleDate "[(0, [Num 99])]"]
  by (simp add: model_defs)

text \<open>
  C3: when the display name is empty or consists of white space only, the
  Save Snapshot button is disabled and a click changes nothing: the state,
  with its history, and the storage, with the stored history, are what they
  were. The check is the button's; \<open>saveSnapshot\<close> itself has none.
\<close>

theorem blank_name_save_is_noop:
  assumes "list_all isWhiteSpace (userName s)"
  shows "step J (SaveClick now) s = s"
  using assms by (simp add: step_def saveDisabled_def trim_def strip_all_dropped list_all_iff)

theorem blank_name_save_is_noop_witness:
  "list_all isWhiteSpace (userName (exampleState\<lparr>userName := [0x20, 0x09, 0xA0]\<rparr>)) \<and>
   history (step exampleHost (SaveClick exampleDate) (exampleState\<lparr>userName := [0x20, 0x09, 0xA0]\<rparr>))
     = [] \<and>
   localStorage (step exampleHost (SaveClick exampleDate)
                   (exampleState\<lparr>userName := [0x20, 0x09, 0xA0]\<rparr>)) ''needsPyramidHistory''
     = None"
  using blank_name_save_is_noop [of "exampleState\<lparr>userName := [0x20, 0x09, 0xA0]\<rparr>"
      exampleHost exampleDate]
  by (simp add: isWhiteSpace_def exampleState_def)

subsection \<open>Round trip of the rating vector\<close>



subsection \<open>Reset\<close>

text \<open>
  What a confirmed reset leaves behind, for every state whose rating vector
  is in the store: the state is back at its defaults and the history key is
  gone, but the render that follows runs the persisting effects, which write
  the rating key again, and the name key as well unless the name was empty
  already.
\<close>

lemma reset_confirmed_result:
  assumes "levelValues s < length (arrays s)"
  shows "ratings (step J (ResetClick True) s) = defaultValues \<and>
         history (step J (ResetClick True) s) = [] \<and>
         userName (step J (ResetClick True) s) = [] \<and>
         localStorage (step J (ResetClick True) s) ''needsPyramidHistory'' = None \<and>
         localStorage (step J (ResetClick True) s) ''needsPyramidValues''
           = Some (JSON_stringify defaultValues) \<and>
         localStorage (step J (ResetClick True) s) ''needsPyramidUserName''
           = (if userName s = [] then None else Some [])"
  using assms
  by (simp add: step_def resetData_def rerender_def persistLevelValues_def persistUserName_def
      ratings_def Let_def)

text \<open>
  C5: after a confirmed reset the rating vector is six times 50, the history
  is empty and the display name is empty, and the history key is absent from
  storage. The other two keys are not absent. Evaluated on the component
  mounted on an empty storage, after the name A has been typed: the rating key
  holds the text of the default vector and the name key holds the empty string.
\<close>

theorem reset_confirmed_rewrites_keys:
  "\<not> isl (mount J Map.empty) \<and>
   ratings (run J [NameInput [0x41], ResetClick True] (projr (mount J Map.empty)))
     = [Num 50, Num 50, Num 50, Num 50, Num 50, Num 50] \<and>
   history (run J [NameInput [0x41], ResetClick True] (projr (mount J Map.empty))) = [] \<and>
   userName (run J [NameInput [0x41], ResetClick True] (projr (mount J Map.empty))) = [] \<and>
   localStorage (run J [NameInput [0x41], ResetClick True] (projr (mount J Map.empty)))
     ''needsPyramidHistory'' = None \<and>
   localStorage (run J [NameInput [0x41], ResetClick True] (projr (mount J Map.empty)))
     ''needsPyramidValues'' = Some defaultText \<and>
   localStorage (run J [NameInput [0x41], ResetClick True] (projr (mount J Map.empty)))
     ''needsPyramidUserName'' = Some []"
  by (simp add: model_defs JSON_stringify_fifties)

text \<open>
  C6: when the user declines the confirmation prompt, \<open>resetData\<close> changes
  nothing: the rating vector, the history, the display name and the three
  stored values are what they were, and no render follows.
\<close>

theorem reset_declined_unchanged:
  "step J (ResetClick False) s = s"
  by (simp add: step_def resetData_def rerender_def)

subsection \<open>Initialisation\<close>

text \<open>
  C7: when no \<open>JSON.parse\<close> throws in the loading effect, each of the three
  stored values is loaded on its own account: what happens to a state variable
  depends on its own key only. For a key that is absent (or holds the empty
  string) the state variable is left as it is; for a key that is present it is
  set to what \<open>JSON.parse\<close> returns for the stored text, and the display name to
  the stored string. When the values set have the declared types, the mounted
  component shows for each key its default (six times 50, the empty history,
  the empty name) where the variable was left as it is and the loaded value
  where it was set; when one of them has not, initialisation ends outside the
  declared types.
\<close>

theorem mount_loads_each_value:
  assumes "loadEffect J st = Some l"
  shows "(case st ''needsPyramidValues'' of
            None \<Rightarrow> loadedLevelValues l = Unchanged
          | Some t \<Rightarrow>
              if t = [] then loadedLevelValues l = Unchanged
              else (case loadedLevelValues l of
                      Unchanged \<Rightarrow> False
                    | Loaded xs \<Rightarrow> JSON_parse J t = Returns xs
                    | LoadedOther \<Rightarrow> JSON_parse J t = ReturnsOther)) \<and>
         (case st ''needsPyramidHistory'' of
            None \<Rightarrow> loadedHistory l = Unchanged
          | Some t \<Rightarrow>
              if t = [] then loadedHistory l = Unchanged
              else (case loadedHistory l of
                      Unchanged \<Rightarrow> False
                    | Loaded js \<Rightarrow> parseSnapshots J t = Returns js
                    | LoadedOther \<Rightarrow> parseSnapshots J t = ReturnsOther)) \<and>
         (case st ''needsPyramidUserName'' of
            None \<Rightarrow> loadedUserName l = None
          | Some t \<Rightarrow> loadedUserName l = (if t = [] then None else Some t)) \<and>
         (case mount J st of
            Inl e \<Rightarrow>
              e = OutsideTypes \<and>
              (loadedLevelValues l = LoadedOther \<or> loadedHistory l = LoadedOther)
          | Inr s \<Rightarrow>
              ratings s = (case loadedLevelValues l of
                             Unchanged \<Rightarrow> replicate 6 (Num 50)
                           | Loaded xs \<Rightarrow> xs
                           | LoadedOther \<Rightarrow> []) \<and>
              (case loadedHistory l of
                 Unchanged \<Rightarrow> history s = []
               | Loaded js \<Rightarrow> map (snapshotValue (arrays s)) (history s) = js
               | LoadedOther \<Rightarrow> False) \<and>
              userName s = (case loadedUserName l of None \<Rightarrow> [] | Some t \<Rightarrow> t) \<and>
              loadedLevelValues l \<noteq> LoadedOther)"
proof -
  note lp1 = loadParsed_result [OF loadEffect_result(1) [OF assms]]
  note lp2 = loadParsed_result [OF loadEffect_result(2) [OF assms]]
  note lu = loadEffect_result(3) [OF assms]
  have u: "case st ''needsPyramidUserName'' of
             None \<Rightarrow> loadedUserName l = None
           | Some t \<Rightarrow> loadedUserName l = (if t = [] then None else Some t)"
    using lu by (simp split: option.splits)
  have m: "case mount J st of
             Inl e \<Rightarrow>
               e = OutsideTypes \<and>
               (loadedLevelValues l = LoadedOther \<or> loadedHistory l = LoadedOther)
           | Inr s \<Rightarrow>
               ratings s = (case loadedLevelValues l of
                              Unchanged \<Rightarrow> replicate 6 (Num 50)
                            | Loaded xs \<Rightarrow> xs
                            | LoadedOther \<Rightarrow> []) \<and>
               (case loadedHistory l of
                  Unchanged \<Rightarrow> history s = []
                | Loaded js \<Rightarrow> map (snapshotValue (arrays s)) (history s) = js
                | LoadedOther \<Rightarrow> False) \<and>
               userName s = (case loadedUserName l of None \<Rightarrow> [] | Some t \<Rightarrow> t) \<and>
               loadedLevelValues l \<noteq> LoadedOther"
  proof (cases "mount J st")
    case (Inl e)
    then show ?thesis using assms
      by (auto simp: mount_def requestedState_def setLevelValues_def setHistory_def Let_def
               split: option.splits loaded.splits prod.splits)
  next
    case (Inr s)
    note ms = mount_state [OF Inr assms]
    have nl: "loadedLevelValues l \<noteq> LoadedOther" and nh: "loadedHistory l \<noteq> LoadedOther"
      using Inr assms
      by (auto simp: mount_def requestedState_def setLevelValues_def setHistory_def Let_def
               split: option.splits loaded.splits)
    from ms(1) nl have r: "ratings s = (case loadedLevelValues l of
                                          Unchanged \<Rightarrow> replicate 6 (Num 50)
                                        | Loaded xs \<Rightarrow> xs
                                        | LoadedOther \<Rightarrow> [])"
      by (cases "loadedLevelValues l") simp_all
    from ms(2) nh have h: "case loadedHistory l of
                             Unchanged \<Rightarrow> history s = []
                           | Loaded js \<Rightarrow> map (snapshotValue (arrays s)) (history s) = js
                           | LoadedOther \<Rightarrow> False"
      by (cases "loadedHistory l") simp_all
    note n = ms(3)
    from r h n nl show ?thesis unfolding Inr by simp
  qed
  from lp1 lp2 u m show ?thesis by blast
qed

theorem mount_loads_each_value_witness:
  "loadEffect exampleHost [''needsPyramidUserName'' \<mapsto> exampleName,
                          ''needsPyramidValues'' \<mapsto> exampleText]
     = Some \<lparr>loadedLevelValues = Loaded [Num 10, Num 20, Num 30, Num 40, Num 50, Num 60],
             loadedHistory = Unchanged, loadedUserName = Some exampleName\<rparr> \<and>
   \<not> isl (mount exampleHost [''needsPyramidUserName'' \<mapsto> exampleName,
                             ''needsPyramidValues'' \<mapsto> exampleText]) \<and>
   ratings (projr (mount exampleHost [''needsPyramidUserName'' \<mapsto> exampleName,
                                     ''needsPyramidValues'' \<mapsto> exampleText]))
     = [Num 10, Num 20, Num 30, Num 40, Num 50, Num 60] \<and>
   history (projr (mount exampleHost [''needsPyramidUserName'' \<mapsto> exampleName,
                                     ''needsPyramidValues'' \<mapsto> exampleText])) = [] \<and>
   userName (projr (mount exampleHost [''needsPyramidUserName'' \<mapsto> exampleName,
                                      ''needsPyramidValues'' \<mapsto> exampleText])) = exampleName"
  using mount_loads_each_value [of exampleHost
      "[''needsPyramidUserName'' \<mapsto> exampleName, ''needsPyramidValues'' \<mapsto> exampleText]"
      "\<lparr>loadedLevelValues = Loaded [Num 10, Num 20, Num 30, Num 40, Num 50, Num 60],
        loadedHistory = Unchanged, loadedUserName = Some exampleName\<rparr>"]
  by (simp add: model_defs JSON_parse_exampleText exampleText_nonempty)

subsection \<open>The storage keys after initialisation\<close>




text \<open>
  The two persisting effects of the first render write both keys on every
  storage, before the state that the loading effect requested is rendered.
\<close>

lemma first_effects_write_keys:
  "localStorage (persistUserName (persistLevelValues (initialState st))) ''needsPyramidValues''
     = Some (JSON_stringify defaultValues) \<and>
   localStorage (persistUserName (persistLevelValues (initialState st))) ''needsPyramidUserName''
     = Some []"
  by (simp add: persistUserName_def persistLevelValues_def ratings_def)





subsection \<open>The rating invariant\<close>

lemma vectorOk_update:
  assumes "vectorOk xs" and "i < 6" and "ratingOk v"
  shows "vectorOk (assignIndex xs i v)"
proof -
  from assms have a: "assignIndex xs i v = xs[i := v]" by (simp add: assignIndex_def vectorOk_def)
  have "set (xs[i := v]) \<subseteq> insert v (set xs)" by (rule set_update_subset_insert)
  with assms show ?thesis unfolding a by (auto simp: vectorOk_def list_all_iff)
qed

lemma fromControls_slider:
  assumes "fromControls (SliderChange index vals)"
  shows "index < 6 \<and> (\<exists>v. vals = [Num v] \<and> 0 \<le> v \<and> v \<le> 100)"
proof (cases vals)
  case Nil
  with assms show ?thesis by simp
next
  case (Cons x xs)
  with assms show ?thesis
    by (cases x; cases xs) (simp_all add: length_LEVELS)
qed

lemma step_keeps_rating_invariant:
  assumes "levelValues s < length (arrays s)" and "vectorOk (ratings s)" and "fromControls ev"
  shows "levelValues (step J ev s) < length (arrays (step J ev s)) \<and>
         vectorOk (ratings (step J ev s))"
proof (cases ev)
  case (SliderChange index vals)
  with assms(3) obtain v where v: "vals = [Num v]" "0 \<le> v" "v \<le> 100" and i: "index < 6"
    using fromControls_slider by blast
  have "ratingOk (firstOf vals)" using v by (simp add: firstOf_def ratingOk_def)
  with assms(2) i have "vectorOk (ratings (handleSliderChange index vals s))"
    by (simp add: ratings_handleSliderChange vectorOk_update)
  then show ?thesis using SliderChange
    by (simp add: step_def) (simp add: handleSliderChange_def Let_def)
next
  case (ResetClick confirmed)
  have "vectorOk defaultValues"
    by (simp add: vectorOk_def defaultValues_eq ratingOk_def)
  with assms ResetClick show ?thesis
    by (simp add: step_def resetData_def ratings_def)
qed (use assms in \<open>simp_all add: step_def saveSnapshot_def Let_def ratings_def nth_append\<close>)

lemma run_keeps_rating_invariant:
  assumes "levelValues s < length (arrays s)" and "vectorOk (ratings s)"
    and "list_all fromControls evs"
  shows "vectorOk (ratings (run J evs s))"
  using assms
proof (induction evs arbitrary: s)
  case Nil
  then show ?case by simp
next
  case (Cons ev evs)
  from Cons.prems have "fromControls ev" and rest: "list_all fromControls evs" by simp_all
  with Cons.prems(1,2) have
    "levelValues (step J ev s) < length (arrays (step J ev s)) \<and> vectorOk (ratings (step J ev s))"
    by (simp add: step_keeps_rating_invariant)
  with Cons.IH rest show ?case by simp
qed

text \<open>
  C8, as stated, fails at loading: the stored text is not validated. On a
  storage whose rating key holds the text of the array 1, 2, 3 the mount
  completes and the rating vector is that array of three entries.
\<close>

theorem rating_invariant_broken_by_stored_text:
  "\<not> isl (mount exampleHost [''needsPyramidValues'' \<mapsto> shortText]) \<and>
   ratings (projr (mount exampleHost [''needsPyramidValues'' \<mapsto> shortText]))
     = [Num 1, Num 2, Num 3] \<and>
   \<not> vectorOk (ratings (projr (mount exampleHost [''needsPyramidValues'' \<mapsto> shortText])))"
  by (simp add: model_defs JSON_parse_shortText exampleText_nonempty)

text \<open>
  C8, amended: when the stored rating vector is absent, empty or the JSON text
  of six integers from 0 to 100, then in every state reached from the completed
  mount by events the controls can deliver, the rating vector has exactly six
  entries and each of them is an integer from 0 to 100.
\<close>

theorem rating_invariant_from_valid_storage:
  assumes "storedVectorOk J st" and "mount J st = Inr s" and "list_all fromControls evs"
  shows "vectorOk (ratings (run J evs s))"
proof -
  have d: "vectorOk (replicate 6 (Num 50))"
    by (simp add: vectorOk_def ratingOk_def numeral_eq_Suc)
  have "vectorOk (ratings s)"
  proof (cases "st ''needsPyramidValues''")
    case None
    with mount_loaded [OF assms(2)] d show ?thesis by simp
  next
    case (Some t)
    show ?thesis
    proof (cases "t = []")
      case True
      with Some mount_loaded [OF assms(2)] d show ?thesis by simp
    next
      case False
      with Some mount_loaded [OF assms(2)] have "JSON_parse J t = Returns (ratings s)" by simp
      with Some False assms(1) show ?thesis by (simp add: storedVectorOk_def)
    qed
  qed
  then show ?thesis
    using run_keeps_rating_invariant [OF mount_levelValues_valid [OF assms(2)] _ assms(3)]
    by blast
qed

theorem rating_invariant_from_valid_storage_witness:
  "storedVectorOk exampleHost [''needsPyramidValues'' \<mapsto> exampleText] \<and>
   mount exampleHost [''needsPyramidValues'' \<mapsto> exampleText]
     = Inr (projr (mount exampleHost [''needsPyramidValues'' \<mapsto> exampleText])) \<and>
   list_all fromControls
     [SliderChange 2 [Num 75], NameInput exampleName, SaveClick exampleDate, ResetClick True,
      SliderChange 0 [Num 0]] \<and>
   vectorOk (ratings (run exampleHost
     [SliderChange 2 [Num 75], NameInput exampleName, SaveClick exampleDate, ResetClick True,
      SliderChange 0 [Num 0]]
     (projr (mount exampleHost [''needsPyramidValues'' \<mapsto> exampleText]))))"
  using rating_invariant_from_valid_storage [of exampleHost
      "[''needsPyramidValues'' \<mapsto> exampleText]" "projr (mount exampleHost [''needsPyramidValues'' \<mapsto> exampleText])"
      "[SliderChange 2 [Num 75], NameInput exampleName, SaveClick exampleDate, ResetClick True,
        SliderChange 0 [Num 0]]"]
  by (simp add: model_defs JSON_parse_exampleText exampleText_nonempty length_LEVELS)

subsection \<open>The history log\<close>

text \<open>
  C9: in every state reached from a completed mount, every event either leaves
  the history as it is, or appends exactly one snapshot behind the earlier ones,
  or empties the history; and the \<open>values\<close> array of every snapshot in the
  history holds after the event what it held before.
\<close>

theorem history_append_only:
  assumes "mount J st = Inr s0"
  shows "(history (step J ev (run J evs s0)) = history (run J evs s0) \<or>
          (\<exists>sn. history (step J ev (run J evs s0)) = history (run J evs s0) @ [sn]) \<or>
          history (step J ev (run J evs s0)) = []) \<and>
         list_all (\<lambda>sn. arrays (step J ev (run J evs s0)) ! values_ref sn
                         = arrays (run J evs s0) ! values_ref sn)
           (history (run J evs s0))"
proof -
  let ?s = "run J evs s0"
  have w: "refsValid ?s" using assms by (simp add: mount_refsValid run_refsValid)
  have h: "history (step J ev ?s) = history ?s \<or>
           (\<exists>sn. history (step J ev ?s) = history ?s @ [sn]) \<or>
           history (step J ev ?s) = []"
    by (cases ev) (simp_all add: step_def saveSnapshot_def resetData_def Let_def)
  have "arrays (step J ev ?s) ! values_ref sn = arrays ?s ! values_ref sn"
    if "sn \<in> set (history ?s)" for sn
  proof -
    from that w have "values_ref sn < length (arrays ?s)"
      by (simp add: refsValid_def list_all_iff)
    then show ?thesis using store_stable_step by blast
  qed
  then have "list_all (\<lambda>sn. arrays (step J ev ?s) ! values_ref sn = arrays ?s ! values_ref sn)
               (history ?s)"
    by (simp add: list_all_iff)
  with h show ?thesis by blast
qed

theorem history_append_only_witness:
  "mount exampleHost Map.empty = Inr (projr (mount exampleHost Map.empty)) \<and>
   length (history (run exampleHost [NameInput exampleName, SaveClick exampleDate]
                      (projr (mount exampleHost Map.empty)))) = 1 \<and>
   history (step exampleHost (SliderChange 0 [Num 99])
              (run exampleHost [NameInput exampleName, SaveClick exampleDate]
                 (projr (mount exampleHost Map.empty))))
     = history (run exampleHost [NameInput exampleName, SaveClick exampleDate]
                  (projr (mount exampleHost Map.empty))) \<and>
   list_all (\<lambda>sn. arrays (step exampleHost (SliderChange 0 [Num 99])
                             (run exampleHost [NameInput exampleName, SaveClick exampleDate]
                                (projr (mount exampleHost Map.empty))))
                    ! values_ref sn = [Num 50, Num 50, Num 50, Num 50, Num 50, Num 50])
     (history (run exampleHost [NameInput exampleName, SaveClick exampleDate]
                 (projr (mount exampleHost Map.empty))))"
  using history_append_only [of exampleHost Map.empty "projr (mount exampleHost Map.empty)"
      "SliderChange 0 [Num 99]" "[NameInput exampleName, SaveClick exampleDate]"]
  by (simp add: model_defs)


end
